theory Spec2Isabelle
  imports Main
begin

section \<open>Python values used by the dashboard\<close>

text \<open>
  A Python \<open>str\<close> is a sequence of Unicode code points, so it is modelled as a list of
  natural numbers (the check mark used by the note scanner is the single code point
  U+2713 = 10003). \<open>str\<close> turns an ASCII literal into such a list.
\<close>

type_synonym pystr = "nat list"

definition str :: "string \<Rightarrow> pystr" where
  "str s = map of_char s"

text \<open>The code points for which Python's \<open>str.isspace\<close> holds; \<open>strip()\<close> removes them.\<close>

definition isspace :: "nat \<Rightarrow> bool" where
  "isspace c \<longleftrightarrow> c \<in> set [9, 10, 11, 12, 13, 28, 29, 30, 31, 32, 133, 160, 5760,
      8192, 8193, 8194, 8195, 8196, 8197, 8198, 8199, 8200, 8201, 8202,
      8232, 8233, 8239, 8287, 12288]"

definition lstrip :: "pystr \<Rightarrow> pystr" where
  "lstrip s = dropWhile isspace s"

definition rstrip :: "pystr \<Rightarrow> pystr" where
  "rstrip s = rev (dropWhile isspace (rev s))"

definition strip :: "pystr \<Rightarrow> pystr" where
  "strip s = rstrip (lstrip s)"

text \<open>\<open>s.lstrip(chars)\<close>: drops leading code points as long as they occur in \<open>chars\<close>
  (a set of characters, not a prefix).\<close>

definition lstrip_chars :: "pystr \<Rightarrow> pystr \<Rightarrow> pystr" where
  "lstrip_chars chars s = dropWhile (\<lambda>c. c \<in> set chars) s"

definition startswith :: "pystr \<Rightarrow> pystr \<Rightarrow> bool" where
  "startswith s p \<longleftrightarrow> take (length p) s = p"

text \<open>\<open>sub in s\<close> for strings.\<close>

fun contains :: "pystr \<Rightarrow> pystr \<Rightarrow> bool" where
  "contains [] sub = (sub = [])"
| "contains (c # cs) sub = (startswith (c # cs) sub \<or> contains cs sub)"

text \<open>
  \<open>s.lower()\<close>. ASCII capitals are mapped to their small letters. Python lowers further
  letters outside ASCII; the only ones whose lower case contains an ASCII letter are
  U+0130 (giving \<open>i\<close> and U+0307) and U+212A (giving \<open>k\<close>), and neither letter occurs in
  the word the scanner searches for, so for that search the two functions agree.
\<close>

definition lower_char :: "nat \<Rightarrow> nat" where
  "lower_char c = (if 65 \<le> c \<and> c \<le> 90 then c + 32 else c)"

definition lower :: "pystr \<Rightarrow> pystr" where
  "lower s = map lower_char s"

text \<open>\<open>s.split(sep)\<close> for a separator of one code point: never an empty result,
  \<open>"".split("\n") = [""]\<close>.\<close>

fun py_split :: "nat \<Rightarrow> pystr \<Rightarrow> pystr list" where
  "py_split sep [] = [[]]"
| "py_split sep (c # cs) =
     (if c = sep then [] # py_split sep cs
      else (case py_split sep cs of
              [] \<Rightarrow> [[c]]
            | r # rs \<Rightarrow> (c # r) # rs))"

text \<open>
  Values produced by \<open>json.loads\<close> (numbers are the integers the dashboard counts with).
  An object is the parsed dictionary, listed by key: each key once.
\<close>

datatype json =
    JNull
  | JBool bool
  | JInt int
  | JStr pystr
  | JList "json list"
  | JObj "(pystr \<times> json) list"

text \<open>\<open>d.get(k, dflt)\<close> on a parsed object.\<close>

definition dict_get :: "(pystr \<times> json) list \<Rightarrow> pystr \<Rightarrow> json \<Rightarrow> json" where
  "dict_get d k dflt = (case map_of d k of None \<Rightarrow> dflt | Some v \<Rightarrow> v)"

section \<open>Files, time and the persisted document\<close>

text \<open>
  What the program finds at a fixed path: nothing (\<open>exists()\<close> is false), a file whose
  reading or parsing raises, or a file with the given (parsed) content.
\<close>

datatype 'a file_state = Absent | Unreadable | Content 'a

text \<open>
  \<open>datetime.now()\<close>: the ordinal of the calendar day and the microseconds elapsed since
  midnight (below \<open>86400000000\<close>). A note file's date, parsed by \<open>strptime\<close> with
  \<open>%Y-%m-%d\<close>, is midnight of a day and is given by the day's ordinal alone.
\<close>

record datetime =
  day :: int
  us :: nat

definition elapsed_us :: "datetime \<Rightarrow> int \<Rightarrow> int" where
  "elapsed_us now file_date = (day now - file_date) * 86400000000 + int (us now)"

text \<open>\<open>(now - file_date).days\<close>: a \<open>timedelta\<close> is normalised, its \<open>days\<close> is the floor.\<close>

definition timedelta_days :: "datetime \<Rightarrow> int \<Rightarrow> int" where
  "timedelta_days now file_date = elapsed_us now file_date div 86400000000"

record usage =
  total :: json
  today :: json
  week :: json

record todo_item =
  task :: pystr
  done_flag :: bool
  source :: "pystr option"

text \<open>
  The document in \<open>data.json\<close>. Each key may be missing (\<open>None\<close>), which is what the
  \<open>.get(key, default)\<close> calls of the readers provide for and what makes \<open>data[key]\<close> in the
  writers raise \<open>KeyError\<close>. \<open>last_updated\<close> is \<open>None\<close> for JSON \<open>null\<close>.
\<close>

record persisted =
  token_usage :: "usage option"
  achievements_24h :: "pystr list option"
  achievements_week :: "pystr list option"
  todo :: "todo_item list option"
  last_updated :: "datetime option"

datatype error =
    HTTPException nat "(pystr \<times> pystr) list"
  | KeyError pystr
  | ReadError

definition zero_usage :: usage where
  "zero_usage = \<lparr>total = JInt 0, today = JInt 0, week = JInt 0\<rparr>"

definition default_data :: persisted where
  "default_data = \<lparr>token_usage = Some zero_usage, achievements_24h = Some [],
     achievements_week = Some [], todo = Some [], last_updated = None\<rparr>"

definition load_data :: "persisted file_state \<Rightarrow> error + persisted" where
  "load_data data_file =
     (case data_file of
        Absent \<Rightarrow> Inr default_data
      | Unreadable \<Rightarrow> Inl ReadError
      | Content data \<Rightarrow> Inr data)"

definition save_data :: "datetime \<Rightarrow> persisted \<Rightarrow> persisted file_state" where
  "save_data now data = Content (data\<lparr>last_updated := Some now\<rparr>)"

text \<open>\<open>data.get(key, [])\<close> for the three list-valued keys.\<close>

definition stored_24h :: "persisted \<Rightarrow> pystr list" where
  "stored_24h data = (case achievements_24h data of None \<Rightarrow> [] | Some xs \<Rightarrow> xs)"

definition stored_week :: "persisted \<Rightarrow> pystr list" where
  "stored_week data = (case achievements_week data of None \<Rightarrow> [] | Some xs \<Rightarrow> xs)"

definition stored_todos :: "persisted \<Rightarrow> todo_item list" where
  "stored_todos data = (case todo data of None \<Rightarrow> [] | Some ts \<Rightarrow> ts)"

section \<open>Token usage resolver\<close>

text \<open>
  The \<open>try\<close> block covers reading, parsing and the three \<open>stats.get\<close> calls; the bare
  \<open>except\<close> swallows whatever they raise, also the \<open>AttributeError\<close> of \<open>.get\<close> on a parsed
  value that is not an object. \<open>stats_usage\<close> is \<open>None\<close> when the function falls through
  to the stored data.
\<close>

definition stats_usage :: "json file_state \<Rightarrow> usage option" where
  "stats_usage stats_file =
     (case stats_file of
        Absent \<Rightarrow> None
      | Unreadable \<Rightarrow> None
      | Content stats \<Rightarrow>
          (case stats of
             JObj d \<Rightarrow> Some \<lparr>total = dict_get d (str ''total_tokens'') (JInt 0),
                              today = dict_get d (str ''today_tokens'') (JInt 0),
                              week = dict_get d (str ''week_tokens'') (JInt 0)\<rparr>
           | _ \<Rightarrow> None))"

definition get_token_usage :: "json file_state \<Rightarrow> persisted file_state \<Rightarrow> error + usage" where
  "get_token_usage stats_file data_file =
     (case stats_usage stats_file of
        Some u \<Rightarrow> Inr u
      | None \<Rightarrow>
          (case load_data data_file of
             Inl e \<Rightarrow> Inl e
           | Inr data \<Rightarrow>
               Inr (case token_usage data of None \<Rightarrow> zero_usage | Some u \<Rightarrow> u)))"

section \<open>Achievement aggregator\<close>

text \<open>
  A file matched by \<open>memory/*.md\<close>: \<open>stem_date\<close> is what \<open>strptime\<close> makes of the file's
  stem (\<open>None\<close> when it raises \<open>ValueError\<close>), \<open>content\<close> what \<open>read_text\<close> returns (\<open>None\<close>
  when it raises). The directory is given as the files in the order of the loop, that
  is by descending name, or \<open>None\<close> when it does not exist.
\<close>

record note_file =
  stem_date :: "int option"
  content :: "pystr option"

definition check_mark :: nat where
  "check_mark = 10003"

definition is_marked :: "pystr \<Rightarrow> bool" where
  "is_marked line \<longleftrightarrow>
     startswith line (str ''- [x]'') \<or> startswith line [check_mark]
     \<or> contains (lower line) (str ''completed'')"

definition extract_achievement :: "pystr \<Rightarrow> pystr" where
  "extract_achievement line = strip (lstrip_chars (str ''- [x]'' @ [check_mark] @ str '' '') line)"

text \<open>The body of the loop over lines; the accumulator is the pair of the two lists.\<close>

definition scan_line :: "int \<Rightarrow> pystr list \<times> pystr list \<Rightarrow> pystr \<Rightarrow> pystr list \<times> pystr list" where
  "scan_line days acc raw =
     (let line = strip raw in
      if is_marked line then
        (let achievement = extract_achievement line in
         if achievement \<noteq> [] then
           (if days < 1 then fst acc @ [achievement] else fst acc,
            if days < 7 then snd acc @ [achievement] else snd acc)
         else acc)
      else acc)"

text \<open>The body of the loop over files: whatever raises inside \<open>try\<close> skips the file, and
  nothing is appended before the last call that can raise.\<close>

definition scan_file :: "datetime \<Rightarrow> pystr list \<times> pystr list \<Rightarrow> note_file \<Rightarrow> pystr list \<times> pystr list" where
  "scan_file now acc f =
     (case stem_date f of
        None \<Rightarrow> acc
      | Some file_date \<Rightarrow>
          (case content f of
             None \<Rightarrow> acc
           | Some c \<Rightarrow> foldl (scan_line (timedelta_days now file_date)) acc (py_split 10 c)))"

definition scan_memory :: "datetime \<Rightarrow> note_file list option \<Rightarrow> pystr list \<times> pystr list" where
  "scan_memory now memory_dir =
     (case memory_dir of
        None \<Rightarrow> ([], [])
      | Some files \<Rightarrow> foldl (scan_file now) ([], []) files)"

text \<open>The two lists as they are just before the \<open>return\<close>, stored achievements appended.\<close>

definition collect_achievements :: "datetime \<Rightarrow> note_file list option \<Rightarrow> persisted \<Rightarrow> pystr list \<times> pystr list" where
  "collect_achievements now memory_dir data =
     (fst (scan_memory now memory_dir) @ stored_24h data,
      snd (scan_memory now memory_dir) @ stored_week data)"

text \<open>
  \<open>list(set(xs))\<close> lists each distinct element of \<open>xs\<close> once, in an order that depends on
  the hashes of the strings. The order is a parameter of the model: any function
  \<open>order\<close> with \<open>set_order order\<close> is a possible behaviour of \<open>list(set(...))\<close>.
\<close>

definition set_order :: "(pystr list \<Rightarrow> pystr list) \<Rightarrow> bool" where
  "set_order order \<longleftrightarrow> (\<forall>xs. distinct (order xs) \<and> set (order xs) = set xs)"

definition get_achievements ::
  "(pystr list \<Rightarrow> pystr list) \<Rightarrow> datetime \<Rightarrow> note_file list option \<Rightarrow> persisted file_state
     \<Rightarrow> error + pystr list \<times> pystr list" where
  "get_achievements order now memory_dir data_file =
     (case load_data data_file of
        Inl e \<Rightarrow> Inl e
      | Inr data \<Rightarrow>
          Inr (take 20 (order (fst (collect_achievements now memory_dir data))),
               take 50 (order (snd (collect_achievements now memory_dir data)))))"

section \<open>Todo aggregator\<close>

definition heartbeat_line :: "todo_item list \<Rightarrow> pystr \<Rightarrow> todo_item list" where
  "heartbeat_line todos raw =
     (let line = strip raw in
      if startswith line (str ''- [ ]'') then
        todos @ [\<lparr>task = strip (drop 5 line), done_flag = False, source = Some (str ''heartbeat'')\<rparr>]
      else if startswith line (str ''- [x]'') then
        todos @ [\<lparr>task = strip (drop 5 line), done_flag = True, source = Some (str ''heartbeat'')\<rparr>]
      else todos)"

definition heartbeat_todos :: "pystr file_state \<Rightarrow> error + todo_item list" where
  "heartbeat_todos heartbeat =
     (case heartbeat of
        Absent \<Rightarrow> Inr []
      | Unreadable \<Rightarrow> Inl ReadError
      | Content c \<Rightarrow> Inr (foldl heartbeat_line [] (py_split 10 c)))"

text \<open>The body of the loop over the stored todos: \<open>todo not in todos\<close> compares whole
  records.\<close>

definition add_stored :: "todo_item list \<Rightarrow> todo_item \<Rightarrow> todo_item list" where
  "add_stored todos t = (if t \<notin> set todos then todos @ [t] else todos)"

definition merge_todos :: "todo_item list \<Rightarrow> persisted \<Rightarrow> todo_item list" where
  "merge_todos todos data =
     foldl add_stored todos (stored_todos data)"

definition get_todos :: "pystr file_state \<Rightarrow> persisted file_state \<Rightarrow> error + todo_item list" where
  "get_todos heartbeat data_file =
     (case heartbeat_todos heartbeat of
        Inl e \<Rightarrow> Inl e
      | Inr todos \<Rightarrow>
          (case load_data data_file of
             Inl e \<Rightarrow> Inl e
           | Inr data \<Rightarrow> Inr (take 30 (merge_todos todos data))))"

section \<open>Authentication and the endpoints\<close>

text \<open>
  The credentials reach \<open>verify_auth\<close> decoded from the request header; the two configured
  secrets are the module constants read from the environment. On such strings
  \<open>secrets.compare_digest\<close> is equality computed in constant time.
\<close>

record credentials =
  username :: pystr
  password :: pystr

record config =
  DASHBOARD_USER :: pystr
  DASHBOARD_PASS :: pystr

text \<open>The values of the two secrets when the environment sets neither.\<close>

definition default_config :: config where
  "default_config = \<lparr>DASHBOARD_USER = str ''kai'', DASHBOARD_PASS = str ''ablent2026''\<rparr>"

definition unauthorized :: error where
  "unauthorized = HTTPException 401 [(str ''WWW-Authenticate'', str ''Basic'')]"

definition verify_auth :: "config \<Rightarrow> credentials \<Rightarrow> error + bool" where
  "verify_auth cfg creds =
     (if \<not> (username creds = DASHBOARD_USER cfg) then Inl unauthorized
      else if \<not> (password creds = DASHBOARD_PASS cfg) then Inl unauthorized
      else Inr True)"

text \<open>The files under the workspace directory that a request reads.\<close>

record workspace =
  stats_file :: "json file_state"
  memory_dir :: "note_file list option"
  heartbeat :: "pystr file_state"

text \<open>The page is represented by the values it displays: the usage triple, the first ten
  achievements of each list and the first fifteen todos.\<close>

record page =
  shown_usage :: usage
  shown_24h :: "pystr list"
  shown_week :: "pystr list"
  shown_todos :: "todo_item list"

datatype response = StatusOk | HTMLResponse page


definition add_achievement ::
  "config \<Rightarrow> datetime \<Rightarrow> credentials \<Rightarrow> pystr \<Rightarrow> pystr
     \<Rightarrow> persisted file_state \<Rightarrow> (error + response) \<times> persisted file_state" where
  "add_achievement cfg now creds atext period data_file =
     (case verify_auth cfg creds of
        Inl e \<Rightarrow> (Inl e, data_file)
      | Inr auth \<Rightarrow>
          (case load_data data_file of
             Inl e \<Rightarrow> (Inl e, data_file)
           | Inr data \<Rightarrow>
               if period = str ''24h'' then
                 (case achievements_24h data of
                    None \<Rightarrow> (Inl (KeyError (str ''achievements_24h'')), data_file)
                  | Some xs \<Rightarrow>
                      (Inr StatusOk,
                       save_data now (data\<lparr>achievements_24h := Some (xs @ [atext])\<rparr>)))
               else
                 (case achievements_week data of
                    None \<Rightarrow> (Inl (KeyError (str ''achievements_week'')), data_file)
                  | Some xs \<Rightarrow>
                      (Inr StatusOk,
                       save_data now (data\<lparr>achievements_week := Some (xs @ [atext])\<rparr>)))))"

definition add_todo ::
  "config \<Rightarrow> datetime \<Rightarrow> credentials \<Rightarrow> pystr \<Rightarrow> bool
     \<Rightarrow> persisted file_state \<Rightarrow> (error + response) \<times> persisted file_state" where
  "add_todo cfg now creds ttask tdone data_file =
     (case verify_auth cfg creds of
        Inl e \<Rightarrow> (Inl e, data_file)
      | Inr auth \<Rightarrow>
          (case load_data data_file of
             Inl e \<Rightarrow> (Inl e, data_file)
           | Inr data \<Rightarrow>
               (case todo data of
                  None \<Rightarrow> (Inl (KeyError (str ''todo'')), data_file)
                | Some ts \<Rightarrow>
                    (Inr StatusOk,
                     save_data now
                       (data\<lparr>todo := Some (ts @ [\<lparr>task = ttask, done_flag = tdone, source = None\<rparr>])\<rparr>)))))"


section \<open>Auxiliary notions for the statements\<close>

text \<open>Whether a parsed value is an object, the only kind of value that has \<open>.get\<close>.\<close>

fun is_object :: "json \<Rightarrow> bool" where
  "is_object (JObj d) = True"
| "is_object _ = False"



section \<open>Token usage resolver: which source wins\<close>

lemmas str_ops = str_def strip_def lstrip_def rstrip_def isspace_def extract_achievement_def
  lstrip_chars_def check_mark_def is_marked_def startswith_def lower_def lower_char_def

text \<open>
  C2, as stated, fails: the content \<open>[]\<close> parses as JSON, yet the resolver returns the
  stored counters, so its result changes with the persisted state.
\<close>

theorem get_token_usage_non_object_counterexample:
  "get_token_usage (Content (JList []))
     (Content (default_data\<lparr>token_usage :=
        Some \<lparr>total = JInt 5, today = JInt 1, week = JInt 2\<rparr>\<rparr>))
     = Inr \<lparr>total = JInt 5, today = JInt 1, week = JInt 2\<rparr>
   \<and> get_token_usage (Content (JList []))
     (Content (default_data\<lparr>token_usage :=
        Some \<lparr>total = JInt 9, today = JInt 9, week = JInt 9\<rparr>\<rparr>))
     = Inr \<lparr>total = JInt 9, today = JInt 9, week = JInt 9\<rparr>"
  by (simp add: get_token_usage_def stats_usage_def load_data_def)

text \<open>
  C2, amended: a stats file that parses as a JSON object decides the result alone, each
  of the three keys read with default 0, whatever the state of \<open>data.json\<close> (even an
  unreadable one); a stats file that is absent, cannot be read or parsed, or parses as
  something other than an object, leaves the result to the persisted \<open>token_usage\<close>.
\<close>

theorem get_token_usage_one_source_wins:
  "get_token_usage (Content (JObj d)) data_file =
      Inr \<lparr>total = dict_get d (str ''total_tokens'') (JInt 0),
           today = dict_get d (str ''today_tokens'') (JInt 0),
           week = dict_get d (str ''week_tokens'') (JInt 0)\<rparr>
   \<and> (token_usage data = Some u \<longrightarrow>
        get_token_usage Absent (Content data) = Inr u
      \<and> get_token_usage Unreadable (Content data) = Inr u
      \<and> (\<not> is_object j \<longrightarrow> get_token_usage (Content j) (Content data) = Inr u))"
  by (cases j) (simp_all add: get_token_usage_def stats_usage_def load_data_def)

theorem get_token_usage_one_source_wins_witness:
  "get_token_usage
      (Content (JObj [(str ''total_tokens'', JInt 100), (str ''today_tokens'', JInt 10),
                      (str ''week_tokens'', JInt 50)])) Unreadable
     = Inr \<lparr>total = JInt 100, today = JInt 10, week = JInt 50\<rparr>
   \<and> token_usage (default_data\<lparr>token_usage :=
        Some \<lparr>total = JInt 5, today = JInt 1, week = JInt 2\<rparr>\<rparr>)
       = Some \<lparr>total = JInt 5, today = JInt 1, week = JInt 2\<rparr>
   \<and> \<not> is_object (JList [])
   \<and> get_token_usage Absent
        (Content (default_data\<lparr>token_usage :=
           Some \<lparr>total = JInt 5, today = JInt 1, week = JInt 2\<rparr>\<rparr>))
      = Inr \<lparr>total = JInt 5, today = JInt 1, week = JInt 2\<rparr>"
  using get_token_usage_one_source_wins
    [of "[(str ''total_tokens'', JInt 100), (str ''today_tokens'', JInt 10),
          (str ''week_tokens'', JInt 50)]"
        Unreadable
        "default_data\<lparr>token_usage := Some \<lparr>total = JInt 5, today = JInt 1, week = JInt 2\<rparr>\<rparr>"
        "\<lparr>total = JInt 5, today = JInt 1, week = JInt 2\<rparr>"
        "JList []"]
  by (simp add: dict_get_def str_def)

section \<open>Authentication\<close>


lemma verify_auth_right:
  "username creds = DASHBOARD_USER cfg \<Longrightarrow> password creds = DASHBOARD_PASS cfg
     \<Longrightarrow> verify_auth cfg creds = Inr True"
  by (simp add: verify_auth_def)



section \<open>Mutation endpoints\<close>



text \<open>
  C9: an authenticated \<open>POST /api/achievement\<close> on a document that has both lists appends
  the text to the stored week list whenever the period is not exactly \<open>24h\<close>, and to the
  stored 24h list exactly when it is; the other list stays as it was.
\<close>

theorem add_achievement_period_routing:
  assumes auth: "username creds = DASHBOARD_USER cfg" "password creds = DASHBOARD_PASS cfg"
    and load: "load_data data_file = Inr data"
    and lists: "achievements_24h data = Some xs" "achievements_week data = Some ys"
  shows "(period \<noteq> str ''24h'' \<longrightarrow>
            add_achievement cfg now creds atext period data_file
              = (Inr StatusOk,
                 Content (data\<lparr>achievements_week := Some (ys @ [atext]),
                                last_updated := Some now\<rparr>)))
       \<and> (period = str ''24h'' \<longrightarrow>
            add_achievement cfg now creds atext period data_file
              = (Inr StatusOk,
                 Content (data\<lparr>achievements_24h := Some (xs @ [atext]),
                                last_updated := Some now\<rparr>)))"
  using verify_auth_right [OF auth] load lists
  by (simp add: add_achievement_def save_data_def)

theorem add_achievement_period_routing_witness:
  "username \<lparr>username = str ''kai'', password = str ''ablent2026''\<rparr>
       = DASHBOARD_USER default_config
   \<and> password \<lparr>username = str ''kai'', password = str ''ablent2026''\<rparr>
       = DASHBOARD_PASS default_config
   \<and> load_data Absent = Inr default_data
   \<and> achievements_24h default_data = Some [] \<and> achievements_week default_data = Some []
   \<and> [] \<noteq> str ''24h'' \<and> str ''24H'' \<noteq> str ''24h''
   \<and> add_achievement default_config \<lparr>day = 739000, us = 0\<rparr>
        \<lparr>username = str ''kai'', password = str ''ablent2026''\<rparr> (str ''shipped'') [] Absent
      = (Inr StatusOk,
         Content (default_data\<lparr>achievements_week := Some ([] @ [str ''shipped'']),
                                last_updated := Some \<lparr>day = 739000, us = 0\<rparr>\<rparr>))
   \<and> add_achievement default_config \<lparr>day = 739000, us = 0\<rparr>
        \<lparr>username = str ''kai'', password = str ''ablent2026''\<rparr> (str ''shipped'')
        (str ''24H'') Absent
      = (Inr StatusOk,
         Content (default_data\<lparr>achievements_week := Some ([] @ [str ''shipped'']),
                                last_updated := Some \<lparr>day = 739000, us = 0\<rparr>\<rparr>))
   \<and> add_achievement default_config \<lparr>day = 739000, us = 0\<rparr>
        \<lparr>username = str ''kai'', password = str ''ablent2026''\<rparr> (str ''shipped'')
        (str ''24h'') Absent
      = (Inr StatusOk,
         Content (default_data\<lparr>achievements_24h := Some ([] @ [str ''shipped'']),
                                last_updated := Some \<lparr>day = 739000, us = 0\<rparr>\<rparr>))"
proof -
  have u: "username \<lparr>username = str ''kai'', password = str ''ablent2026''\<rparr>
             = DASHBOARD_USER default_config"
    and p: "password \<lparr>username = str ''kai'', password = str ''ablent2026''\<rparr>
             = DASHBOARD_PASS default_config"
    by (simp_all add: default_config_def)
  have l: "load_data Absent = Inr default_data"
    by (simp add: load_data_def)
  have a: "achievements_24h default_data = Some []" and w: "achievements_week default_data = Some []"
    by (simp_all add: default_data_def)
  have n: "[] \<noteq> str ''24h''" "str ''24H'' \<noteq> str ''24h''"
    by (simp_all add: str_def)
  note r = add_achievement_period_routing [OF u p l a w]
  from r [of "[]"] r [of "str ''24H''"] r [of "str ''24h''"] u p l a w n
  show ?thesis by blast
qed

section \<open>Achievement aggregator: the scan of the note files\<close>












lemmas scan_ops = collect_achievements_def scan_memory_def scan_file_def scan_line_def
  timedelta_days_def elapsed_us_def stored_24h_def stored_week_def default_data_def Let_def



text \<open>
  C4 does not hold of the code. The marker is removed with \<open>lstrip\<close> and a set of
  characters, which goes on removing past the marker for as long as the text itself
  starts with one of \<open>-\<close>, space, \<open>[\<close>, \<open>x\<close>, \<open>]\<close> or the check mark: a line
  \<open>- [x] xylophone tuned\<close> in today's note yields \<open>ylophone tuned\<close>, and a marked line
  whose text is just \<open>x\<close> yields nothing at all.
\<close>

theorem lstrip_removes_more_than_marker:
  "collect_achievements \<lparr>day = 739000, us = 3600000000\<rparr>
     (Some [\<lparr>stem_date = Some 739000, content = Some (str ''- [x] xylophone tuned'')\<rparr>])
     default_data
     = ([str ''ylophone tuned''], [str ''ylophone tuned''])
   \<and> collect_achievements \<lparr>day = 739000, us = 3600000000\<rparr>
     (Some [\<lparr>stem_date = Some 739000, content = Some (str ''- [x] x'')\<rparr>])
     default_data
     = ([], [])"
  by (simp add: scan_ops str_ops)

section \<open>Achievement aggregator: stored achievements, deduplication and the caps\<close>




lemma remdups_set_order: "set_order remdups"
  by (simp add: set_order_def)

lemma distinct_count_list: "distinct xs \<Longrightarrow> count_list xs a = (if a \<in> set xs then 1 else 0)"
  by (induction xs) auto

lemma set_order_take:
  assumes "set_order order"
  shows "distinct (take n (order xs))"
    and "length (take n (order xs)) \<le> n"
    and "set (take n (order xs)) \<subseteq> set xs"
    and "card (set xs) \<le> n \<Longrightarrow> take n (order xs) = order xs"
proof -
  from assms have d: "distinct (order xs)" and s: "set (order xs) = set xs"
    by (simp_all add: set_order_def)
  show "distinct (take n (order xs))" using d by simp
  show "length (take n (order xs)) \<le> n" by simp
  show "set (take n (order xs)) \<subseteq> set xs" using s set_take_subset by fastforce
  show "take n (order xs) = order xs" if "card (set xs) \<le> n"
  proof -
    have "length (order xs) = card (set xs)"
      using d s distinct_card by fastforce
    with that show ?thesis by simp
  qed
qed

text \<open>Whatever the order of the set, more distinct texts than the cap lose one of them.\<close>

lemma cap_drops_a_text:
  assumes "set_order order" and "n < card (set xs)"
  shows "\<exists>a\<in>set xs. count_list (take n (order xs)) a = 0"
proof -
  have "card (set (take n (order xs))) \<le> n"
    using card_length [of "take n (order xs)"] by simp
  with assms(2) have "set (take n (order xs)) \<noteq> set xs" by auto
  with set_order_take(3) [OF assms(1), where n = n and xs = xs]
  obtain a where "a \<in> set xs" "a \<notin> set (take n (order xs))" by blast
  then show ?thesis by (auto simp: count_list_0_iff)
qed

text \<open>
  C5, as stated, fails: after posting twenty-one different texts to the 24h list, the
  last of them twice, the returned list has twenty entries and the text posted twice is
  not among them at all.
\<close>

theorem achievements_cap_counterexample:
  "get_achievements remdups \<lparr>day = 739000, us = 0\<rparr> None
     (Content (default_data\<lparr>achievements_24h :=
        Some [str ''a'', str ''b'', str ''c'', str ''d'', str ''e'', str ''f'', str ''g'',
              str ''h'', str ''i'', str ''j'', str ''k'', str ''l'', str ''m'', str ''n'',
              str ''o'', str ''p'', str ''q'', str ''r'', str ''s'', str ''t'', str ''u'',
              str ''u'']\<rparr>))
     = Inr ([str ''a'', str ''b'', str ''c'', str ''d'', str ''e'', str ''f'', str ''g'',
             str ''h'', str ''i'', str ''j'', str ''k'', str ''l'', str ''m'', str ''n'',
             str ''o'', str ''p'', str ''q'', str ''r'', str ''s'', str ''t''], [])"
  by (simp add: get_achievements_def load_data_def scan_ops str_def)

text \<open>
  C5, amended: for every order in which the set is listed, the two returned lists have no
  duplicates, at most 20 and at most 50 entries, and only texts that were collected; when
  at most 20 (at most 50) distinct texts were collected, each of them occurs exactly once
  in the 24-hour (week) list, however often it was collected.
\<close>

theorem achievements_distinct_and_capped:
  assumes ord: "set_order order"
    and load: "load_data data_file = Inr data"
    and res: "get_achievements order now memory data_file = Inr (r24, rweek)"
  shows "distinct r24 \<and> distinct rweek \<and> length r24 \<le> 20 \<and> length rweek \<le> 50
       \<and> set r24 \<subseteq> set (fst (collect_achievements now memory data))
       \<and> set rweek \<subseteq> set (snd (collect_achievements now memory data))
       \<and> (card (set (fst (collect_achievements now memory data))) \<le> 20 \<longrightarrow>
            (\<forall>a\<in>set (fst (collect_achievements now memory data)). count_list r24 a = 1))
       \<and> (card (set (snd (collect_achievements now memory data))) \<le> 50 \<longrightarrow>
            (\<forall>a\<in>set (snd (collect_achievements now memory data)). count_list rweek a = 1))"
proof -
  let ?c24 = "fst (collect_achievements now memory data)"
  let ?cw = "snd (collect_achievements now memory data)"
  from res load have r24: "r24 = take 20 (order ?c24)" and rw: "rweek = take 50 (order ?cw)"
    by (simp_all add: get_achievements_def)
  note t24 = set_order_take [OF ord, where n = 20 and xs = ?c24]
  note tw = set_order_take [OF ord, where n = 50 and xs = ?cw]
  have s: "set (order xs) = set xs" for xs
    using ord by (simp add: set_order_def)
  have once24: "count_list r24 a = 1" if "card (set ?c24) \<le> 20" "a \<in> set ?c24" for a
  proof -
    have "r24 = order ?c24" using t24(4) that(1) r24 by simp
    with that(2) s [of ?c24] have "a \<in> set r24" by simp
    moreover have "distinct r24" using t24(1) r24 by simp
    ultimately show ?thesis by (simp add: distinct_count_list)
  qed
  have oncew: "count_list rweek a = 1" if "card (set ?cw) \<le> 50" "a \<in> set ?cw" for a
  proof -
    have "rweek = order ?cw" using tw(4) that(1) rw by simp
    with that(2) s [of ?cw] have "a \<in> set rweek" by simp
    moreover have "distinct rweek" using tw(1) rw by simp
    ultimately show ?thesis by (simp add: distinct_count_list)
  qed
  have "distinct r24" "distinct rweek" "length r24 \<le> 20" "length rweek \<le> 50"
    "set r24 \<subseteq> set ?c24" "set rweek \<subseteq> set ?cw"
    using t24(1,2,3) tw(1,2,3) r24 rw by simp_all
  with once24 oncew show ?thesis by blast
qed

theorem achievements_distinct_and_capped_witness:
  "set_order remdups
   \<and> get_achievements remdups \<lparr>day = 739000, us = 3600000000\<rparr>
        (Some [\<lparr>stem_date = Some 739000, content = Some (str ''- [x] shipped feature'')\<rparr>])
        (Content (default_data\<lparr>achievements_24h :=
           Some [str ''shipped feature'', str ''shipped feature'']\<rparr>))
      = Inr ([str ''shipped feature''], [str ''shipped feature''])
   \<and> distinct [str ''shipped feature''] \<and> length [str ''shipped feature''] \<le> 20
   \<and> count_list [str ''shipped feature''] (str ''shipped feature'') = 1"
proof -
  let ?now = "\<lparr>day = 739000, us = 3600000000\<rparr>"
  let ?mem = "Some [\<lparr>stem_date = Some 739000, content = Some (str ''- [x] shipped feature'')\<rparr>]"
  let ?data = "default_data\<lparr>achievements_24h :=
           Some [str ''shipped feature'', str ''shipped feature'']\<rparr>"
  have load: "load_data (Content ?data) = Inr ?data"
    by (simp add: load_data_def)
  have c: "collect_achievements ?now ?mem ?data
      = ([str ''shipped feature'', str ''shipped feature'', str ''shipped feature''],
         [str ''shipped feature''])"
    by (simp add: scan_ops str_ops)
  have res: "get_achievements remdups ?now ?mem (Content ?data)
      = Inr ([str ''shipped feature''], [str ''shipped feature''])"
    by (simp add: get_achievements_def load c)
  from achievements_distinct_and_capped [OF remdups_set_order load res]
  have "distinct [str ''shipped feature''] \<and> length [str ''shipped feature''] \<le> 20
      \<and> count_list [str ''shipped feature''] (str ''shipped feature'') = 1"
    by (simp add: c)
  with remdups_set_order res show ?thesis by blast
qed

section \<open>Todo aggregator\<close>

lemma heartbeat_line_append: "heartbeat_line todos raw = todos @ heartbeat_line [] raw"
  by (simp add: heartbeat_line_def Let_def)

lemma foldl_heartbeat_line:
  "foldl heartbeat_line todos ls = todos @ concat (map (heartbeat_line []) ls)"
proof (induction ls arbitrary: todos)
  case Nil
  show ?case by simp
next
  case (Cons l ls)
  have "foldl heartbeat_line todos (l # ls) = foldl heartbeat_line (heartbeat_line todos l) ls"
    by simp
  also have "\<dots> = heartbeat_line todos l @ concat (map (heartbeat_line []) ls)"
    by (rule Cons.IH)
  also have "\<dots> = todos @ concat (map (heartbeat_line []) (l # ls))"
    by (simp add: heartbeat_line_append [of todos l])
  finally show ?case .
qed

lemma heartbeat_line_open:
  "strip raw = str ''- [ ]'' @ rest \<Longrightarrow>
     heartbeat_line [] raw
       = [\<lparr>task = strip rest, done_flag = False, source = Some (str ''heartbeat'')\<rparr>]"
  by (simp add: heartbeat_line_def startswith_def str_def)

lemma heartbeat_line_done:
  "strip raw = str ''- [x]'' @ rest \<Longrightarrow>
     heartbeat_line [] raw
       = [\<lparr>task = strip rest, done_flag = True, source = Some (str ''heartbeat'')\<rparr>]"
  by (simp add: heartbeat_line_def startswith_def str_def)

lemma heartbeat_line_source:
  "h \<in> set (heartbeat_line [] raw) \<Longrightarrow> source h = Some (str ''heartbeat'')"
  by (auto simp: heartbeat_line_def Let_def split: if_splits)

lemma heartbeat_todos_source:
  "heartbeat_todos hb_file = Inr hb \<Longrightarrow> h \<in> set hb \<Longrightarrow> source h = Some (str ''heartbeat'')"
  by (auto simp: heartbeat_todos_def foldl_heartbeat_line heartbeat_line_source
           split: file_state.splits)

lemma heartbeat_todos_member:
  "heartbeat_todos (Content c) = Inr hb \<Longrightarrow> raw \<in> set (py_split 10 c)
     \<Longrightarrow> h \<in> set (heartbeat_line [] raw) \<Longrightarrow> h \<in> set hb"
  by (auto simp: heartbeat_todos_def foldl_heartbeat_line)

lemma foldl_add_stored:
  "\<exists>new. foldl add_stored todos ts = todos @ new \<and> distinct new
      \<and> set new = set ts - set todos"
proof (induction ts arbitrary: todos)
  case Nil
  show ?case by simp
next
  case (Cons t ts)
  show ?case
  proof (cases "t \<in> set todos")
    case True
    then have step: "foldl add_stored todos (t # ts) = foldl add_stored todos ts"
      by (simp add: add_stored_def)
    from Cons.IH [of todos] obtain new where
      "foldl add_stored todos ts = todos @ new" "distinct new" "set new = set ts - set todos"
      by blast
    with True step show ?thesis by auto
  next
    case False
    then have step: "foldl add_stored todos (t # ts) = foldl add_stored (todos @ [t]) ts"
      by (simp add: add_stored_def)
    from Cons.IH [of "todos @ [t]"] obtain new where
      new: "foldl add_stored (todos @ [t]) ts = (todos @ [t]) @ new" "distinct new"
           "set new = set ts - set (todos @ [t])"
      by blast
    have "foldl add_stored todos (t # ts) = todos @ (t # new)"
      using step new(1) by simp
    moreover have "distinct (t # new)" using new(2,3) by auto
    moreover have "set (t # new) = set (t # ts) - set todos" using new(3) False by auto
    ultimately show ?thesis by blast
  qed
qed

lemma foldl_add_stored_disjoint:
  "set ts \<inter> set todos = {} \<Longrightarrow> foldl add_stored todos ts = todos @ foldl add_stored [] ts"
proof (induction ts arbitrary: todos rule: rev_induct)
  case Nil
  show ?case by simp
next
  case (snoc t ts)
  from snoc.prems have disj: "set ts \<inter> set todos = {}" and t: "t \<notin> set todos" by auto
  have IH: "foldl add_stored todos ts = todos @ foldl add_stored [] ts"
    using disj by (rule snoc.IH)
  have "foldl add_stored todos (ts @ [t]) = add_stored (todos @ foldl add_stored [] ts) t"
    by (simp add: IH)
  also have "\<dots> = todos @ add_stored (foldl add_stored [] ts) t"
    using t by (simp add: add_stored_def)
  also have "\<dots> = todos @ foldl add_stored [] (ts @ [t])"
    by simp
  finally show ?case .
qed

lemma merge_todos_set: "set (merge_todos todos data) = set todos \<union> set (stored_todos data)"
proof -
  obtain new where "merge_todos todos data = todos @ new"
    "set new = set (stored_todos data) - set todos"
    using foldl_add_stored [of todos "stored_todos data"] by (auto simp: merge_todos_def)
  then show ?thesis by auto
qed

lemma py_split_line: "sep \<notin> set l \<Longrightarrow> py_split sep (l @ sep # cs) = l # py_split sep cs"
  by (induction l) auto

lemma py_split_lines:
  "sep \<notin> set l \<Longrightarrow> py_split sep (concat (replicate n (l @ [sep]))) = replicate n l @ [[]]"
  by (induction n) (simp_all add: py_split_line)

lemma heartbeat_todos_repeated:
  assumes "10 \<notin> set l"
  shows "heartbeat_todos (Content (concat (replicate n (l @ [10]))))
           = Inr (concat (replicate n (heartbeat_line [] l)))"
proof -
  have "heartbeat_line [] [] = []"
    by (simp add: heartbeat_line_def str_ops)
  moreover have "concat (map (heartbeat_line []) (replicate n l))
      = concat (replicate n (heartbeat_line [] l))"
    by (induction n) simp_all
  moreover have "foldl heartbeat_line [] (replicate n l @ [[]])
      = concat (map (heartbeat_line []) (replicate n l @ [[]]))"
    using foldl_heartbeat_line [of "[]" "replicate n l @ [[]]"] by simp
  ultimately show ?thesis
    by (simp add: heartbeat_todos_def py_split_lines [OF assms])
qed

lemma concat_replicate_single: "concat (replicate n [x]) = replicate n x"
  by (induction n) simp_all

text \<open>
  C6, as stated, fails in its last part: with thirty open items in the heartbeat file, a
  todo posted through the API is stored but is not in the list the aggregator returns.
\<close>

theorem posted_todo_cut_counterexample:
  "get_todos (Content (concat (replicate 30 (str ''- [ ] water plants'' @ [10]))))
     (snd (add_todo default_config \<lparr>day = 739000, us = 0\<rparr>
             \<lparr>username = str ''kai'', password = str ''ablent2026''\<rparr>
             (str ''buy milk'') False Absent))
     = Inr (replicate 30 \<lparr>task = str ''water plants'', done_flag = False,
                           source = Some (str ''heartbeat'')\<rparr>)"
proof -
  let ?l = "str ''- [ ] water plants''"
  let ?h = "\<lparr>task = str ''water plants'', done_flag = False, source = Some (str ''heartbeat'')\<rparr>"
  have nl: "10 \<notin> set ?l"
    by (simp add: str_def)
  have line: "heartbeat_line [] ?l = [?h]"
    by (simp add: heartbeat_line_def str_ops)
  have hb: "heartbeat_todos (Content (concat (replicate 30 (?l @ [10])))) = Inr (replicate 30 ?h)"
    by (simp add: heartbeat_todos_repeated [OF nl] line concat_replicate_single)
  have posted: "snd (add_todo default_config \<lparr>day = 739000, us = 0\<rparr>
             \<lparr>username = str ''kai'', password = str ''ablent2026''\<rparr>
             (str ''buy milk'') False Absent)
        = Content (default_data\<lparr>todo := Some [\<lparr>task = str ''buy milk'', done_flag = False,
                                                   source = None\<rparr>],
                                  last_updated := Some \<lparr>day = 739000, us = 0\<rparr>\<rparr>)"
    by (simp add: add_todo_def verify_auth_def default_config_def load_data_def save_data_def
          default_data_def)
  obtain new where
    "merge_todos (replicate 30 ?h)
       (default_data\<lparr>todo := Some [\<lparr>task = str ''buy milk'', done_flag = False, source = None\<rparr>],
                      last_updated := Some \<lparr>day = 739000, us = 0\<rparr>\<rparr>)
     = replicate 30 ?h @ new"
    using foldl_add_stored [of "replicate 30 ?h"] by (auto simp: merge_todos_def)
  then show ?thesis
    by (simp add: get_todos_def hb posted load_data_def)
qed

text \<open>
  C6, amended: the aggregator maps each line \<open>- [ ] text\<close> of the heartbeat file to an open
  entry and each line \<open>- [x] text\<close> to a done entry, both with source \<open>heartbeat\<close> and the
  trimmed text as task; it then appends, in order, each stored todo that equals no entry
  already in the list, and returns the first 30 entries. A todo posted through the API is
  stored without a source and is in the merged list; it is in the returned list whenever
  the merged list has at most 30 entries.
\<close>

theorem get_todos_merge:
  assumes hb: "heartbeat_todos hb_file = Inr hb"
    and load: "load_data data_file = Inr data"
  shows "get_todos hb_file data_file = Inr (take 30 (merge_todos hb data))
       \<and> length (take 30 (merge_todos hb data)) \<le> 30
       \<and> (\<exists>new. merge_todos hb data = hb @ new \<and> distinct new
              \<and> set new = set (stored_todos data) - set hb)
       \<and> (hb_file = Content c \<and> raw \<in> set (py_split 10 c) \<and> strip raw = str ''- [ ]'' @ rest
            \<longrightarrow> \<lparr>task = strip rest, done_flag = False, source = Some (str ''heartbeat'')\<rparr> \<in> set hb)
       \<and> (hb_file = Content c \<and> raw \<in> set (py_split 10 c) \<and> strip raw = str ''- [x]'' @ rest
            \<longrightarrow> \<lparr>task = strip rest, done_flag = True, source = Some (str ''heartbeat'')\<rparr> \<in> set hb)
       \<and> (username creds = DASHBOARD_USER cfg \<and> password creds = DASHBOARD_PASS cfg
            \<and> todo data = Some ts \<longrightarrow>
            (\<exists>data'. add_todo cfg now creds ttask tdone data_file = (Inr StatusOk, Content data')
               \<and> get_todos hb_file (Content data') = Inr (take 30 (merge_todos hb data'))
               \<and> \<lparr>task = ttask, done_flag = tdone, source = None\<rparr> \<in> set (merge_todos hb data')
               \<and> (length (merge_todos hb data') \<le> 30 \<longrightarrow>
                    \<lparr>task = ttask, done_flag = tdone, source = None\<rparr>
                      \<in> set (take 30 (merge_todos hb data')))))"
proof -
  have result: "get_todos hb_file df = Inr (take 30 (merge_todos hb d))"
    if "load_data df = Inr d" for df d
    using hb that by (simp add: get_todos_def)
  have merged: "\<exists>new. merge_todos hb data = hb @ new \<and> distinct new
      \<and> set new = set (stored_todos data) - set hb"
    unfolding merge_todos_def by (rule foldl_add_stored)
  have open_line: "\<lparr>task = strip rest, done_flag = False, source = Some (str ''heartbeat'')\<rparr> \<in> set hb"
    if "hb_file = Content c" "raw \<in> set (py_split 10 c)" "strip raw = str ''- [ ]'' @ rest"
    using heartbeat_todos_member [of c hb raw] hb that
    by (simp add: heartbeat_line_open)
  have done_line: "\<lparr>task = strip rest, done_flag = True, source = Some (str ''heartbeat'')\<rparr> \<in> set hb"
    if "hb_file = Content c" "raw \<in> set (py_split 10 c)" "strip raw = str ''- [x]'' @ rest"
    using heartbeat_todos_member [of c hb raw] hb that
    by (simp add: heartbeat_line_done)
  have posted: "\<exists>data'. add_todo cfg now creds ttask tdone data_file = (Inr StatusOk, Content data')
         \<and> get_todos hb_file (Content data') = Inr (take 30 (merge_todos hb data'))
         \<and> \<lparr>task = ttask, done_flag = tdone, source = None\<rparr> \<in> set (merge_todos hb data')
         \<and> (length (merge_todos hb data') \<le> 30 \<longrightarrow>
              \<lparr>task = ttask, done_flag = tdone, source = None\<rparr>
                \<in> set (take 30 (merge_todos hb data')))"
    if auth: "username creds = DASHBOARD_USER cfg" "password creds = DASHBOARD_PASS cfg"
      and ts: "todo data = Some ts"
  proof -
    let ?p = "\<lparr>task = ttask, done_flag = tdone, source = None\<rparr>"
    let ?d = "data\<lparr>todo := Some (ts @ [?p]), last_updated := Some now\<rparr>"
    have "add_todo cfg now creds ttask tdone data_file = (Inr StatusOk, Content ?d)"
      using verify_auth_right [OF auth] load ts by (simp add: add_todo_def save_data_def)
    moreover have "get_todos hb_file (Content ?d) = Inr (take 30 (merge_todos hb ?d))"
      by (rule result) (simp add: load_data_def)
    moreover have inm: "?p \<in> set (merge_todos hb ?d)"
      by (simp add: merge_todos_set stored_todos_def)
    moreover have "?p \<in> set (take 30 (merge_todos hb ?d))" if "length (merge_todos hb ?d) \<le> 30"
      using inm that by simp
    ultimately show ?thesis by blast
  qed
  from result [OF load] merged open_line done_line posted show ?thesis
    by simp
qed

theorem get_todos_merge_witness:
  "heartbeat_todos (Content (str ''- [ ] water plants'' @ [10] @ str ''  - [x] feed cat''))
     = Inr [\<lparr>task = str ''water plants'', done_flag = False, source = Some (str ''heartbeat'')\<rparr>,
            \<lparr>task = str ''feed cat'', done_flag = True, source = Some (str ''heartbeat'')\<rparr>]
   \<and> load_data Absent = Inr default_data
   \<and> username \<lparr>username = str ''kai'', password = str ''ablent2026''\<rparr>
       = DASHBOARD_USER default_config
   \<and> password \<lparr>username = str ''kai'', password = str ''ablent2026''\<rparr>
       = DASHBOARD_PASS default_config
   \<and> todo default_data = Some []
   \<and> get_todos (Content (str ''- [ ] water plants'' @ [10] @ str ''  - [x] feed cat'')) Absent
     = Inr [\<lparr>task = str ''water plants'', done_flag = False, source = Some (str ''heartbeat'')\<rparr>,
            \<lparr>task = str ''feed cat'', done_flag = True, source = Some (str ''heartbeat'')\<rparr>]
   \<and> (\<exists>data'. add_todo default_config \<lparr>day = 739000, us = 0\<rparr>
                  \<lparr>username = str ''kai'', password = str ''ablent2026''\<rparr>
                  (str ''buy milk'') False Absent = (Inr StatusOk, Content data')
         \<and> get_todos (Content (str ''- [ ] water plants'' @ [10] @ str ''  - [x] feed cat''))
              (Content data')
            = Inr [\<lparr>task = str ''water plants'', done_flag = False,
                     source = Some (str ''heartbeat'')\<rparr>,
                   \<lparr>task = str ''feed cat'', done_flag = True,
                     source = Some (str ''heartbeat'')\<rparr>,
                   \<lparr>task = str ''buy milk'', done_flag = False, source = None\<rparr>])"
proof -
  let ?c = "str ''- [ ] water plants'' @ [10] @ str ''  - [x] feed cat''"
  let ?h1 = "\<lparr>task = str ''water plants'', done_flag = False, source = Some (str ''heartbeat'')\<rparr>"
  let ?h2 = "\<lparr>task = str ''feed cat'', done_flag = True, source = Some (str ''heartbeat'')\<rparr>"
  let ?p = "\<lparr>task = str ''buy milk'', done_flag = False, source = None\<rparr>"
  let ?creds = "\<lparr>username = str ''kai'', password = str ''ablent2026''\<rparr>"
  let ?now = "\<lparr>day = 739000, us = 0\<rparr>"
  have hb: "heartbeat_todos (Content ?c) = Inr [?h1, ?h2]"
    by (simp add: heartbeat_todos_def heartbeat_line_def str_ops)
  have l: "load_data Absent = Inr default_data"
    by (simp add: load_data_def)
  have u: "username ?creds = DASHBOARD_USER default_config"
    and p: "password ?creds = DASHBOARD_PASS default_config"
    by (simp_all add: default_config_def)
  have t: "todo default_data = Some []"
    by (simp add: default_data_def)
  note m = get_todos_merge [OF hb l, of _ _ _ ?creds default_config "[]" ?now "str ''buy milk''" False]
  have before: "get_todos (Content ?c) Absent = Inr [?h1, ?h2]"
    using m by (simp add: merge_todos_def stored_todos_def default_data_def)
  from m u p t obtain data' where
    d: "add_todo default_config ?now ?creds (str ''buy milk'') False Absent
          = (Inr StatusOk, Content data')"
       "get_todos (Content ?c) (Content data') = Inr (take 30 (merge_todos [?h1, ?h2] data'))"
    by blast
  from d(1) have "data' = default_data\<lparr>todo := Some [?p], last_updated := Some ?now\<rparr>"
    by (simp add: add_todo_def verify_auth_def default_config_def load_data_def save_data_def
          default_data_def)
  then have "take 30 (merge_todos [?h1, ?h2] data') = [?h1, ?h2, ?p]"
    by (simp add: merge_todos_def stored_todos_def add_stored_def)
  with d have "\<exists>data'. add_todo default_config ?now ?creds (str ''buy milk'') False Absent
                = (Inr StatusOk, Content data')
         \<and> get_todos (Content ?c) (Content data') = Inr [?h1, ?h2, ?p]"
    by auto
  with hb l u p t before show ?thesis by blast
qed

text \<open>
  C10: a todo posted through the API has no source, every entry taken from the heartbeat
  file has the source \<open>heartbeat\<close>, so no stored API todo equals a heartbeat entry. When
  all stored todos come from the API, merging them into the heartbeat entries is the
  same as listing the heartbeat entries and then the stored todos merged among
  themselves: all of both are in the merged list, of which the first 30 are returned.
\<close>

theorem api_todos_not_suppressed:
  assumes hb: "heartbeat_todos hb_file = Inr hb"
    and load: "load_data data_file = Inr data"
    and api: "\<forall>t\<in>set (stored_todos data). source t = None"
  shows "(\<forall>h\<in>set hb. \<forall>t\<in>set (stored_todos data). h \<noteq> t)
       \<and> (\<forall>x d. \<lparr>task = x, done_flag = d, source = Some (str ''heartbeat'')\<rparr>
                  \<noteq> \<lparr>task = x, done_flag = d, source = None\<rparr>)
       \<and> merge_todos hb data = hb @ merge_todos [] data
       \<and> set (merge_todos [] data) = set (stored_todos data)
       \<and> get_todos hb_file data_file = Inr (take 30 (hb @ merge_todos [] data))"
proof -
  have ne: "h \<noteq> t" if "h \<in> set hb" "t \<in> set (stored_todos data)" for h t
  proof
    assume "h = t"
    with that api have "source h = None" by simp
    moreover from hb that(1) have "source h = Some (str ''heartbeat'')"
      by (rule heartbeat_todos_source)
    ultimately show False by simp
  qed
  then have "set (stored_todos data) \<inter> set hb = {}" by blast
  then have m: "merge_todos hb data = hb @ merge_todos [] data"
    unfolding merge_todos_def by (rule foldl_add_stored_disjoint)
  have "get_todos hb_file data_file = Inr (take 30 (merge_todos hb data))"
    using hb load by (simp add: get_todos_def)
  with m ne show ?thesis by (simp add: merge_todos_set)
qed

theorem api_todos_not_suppressed_witness:
  "heartbeat_todos (Content (str ''- [ ] buy milk''))
     = Inr [\<lparr>task = str ''buy milk'', done_flag = False, source = Some (str ''heartbeat'')\<rparr>]
   \<and> load_data (Content (default_data\<lparr>todo :=
        Some [\<lparr>task = str ''buy milk'', done_flag = False, source = None\<rparr>]\<rparr>))
      = Inr (default_data\<lparr>todo :=
        Some [\<lparr>task = str ''buy milk'', done_flag = False, source = None\<rparr>]\<rparr>)
   \<and> map source (stored_todos (default_data\<lparr>todo :=
        Some [\<lparr>task = str ''buy milk'', done_flag = False, source = None\<rparr>]\<rparr>)) = [None]
   \<and> get_todos (Content (str ''- [ ] buy milk''))
        (Content (default_data\<lparr>todo :=
           Some [\<lparr>task = str ''buy milk'', done_flag = False, source = None\<rparr>]\<rparr>))
      = Inr [\<lparr>task = str ''buy milk'', done_flag = False, source = Some (str ''heartbeat'')\<rparr>,
             \<lparr>task = str ''buy milk'', done_flag = False, source = None\<rparr>]"
proof -
  let ?h = "\<lparr>task = str ''buy milk'', done_flag = False, source = Some (str ''heartbeat'')\<rparr>"
  let ?p = "\<lparr>task = str ''buy milk'', done_flag = False, source = None\<rparr>"
  let ?d = "default_data\<lparr>todo := Some [?p]\<rparr>"
  have hb: "heartbeat_todos (Content (str ''- [ ] buy milk'')) = Inr [?h]"
    by (simp add: heartbeat_todos_def heartbeat_line_def str_ops)
  have l: "load_data (Content ?d) = Inr ?d"
    by (simp add: load_data_def)
  have a: "\<forall>t\<in>set (stored_todos ?d). source t = None"
    by (simp add: stored_todos_def)
  from api_todos_not_suppressed [OF hb l a]
  have "get_todos (Content (str ''- [ ] buy milk'')) (Content ?d) = Inr [?h, ?p]"
    by (simp add: merge_todos_def stored_todos_def add_stored_def)
  moreover have "map source (stored_todos ?d) = [None]"
    by (simp add: stored_todos_def)
  ultimately show ?thesis using hb l by blast
qed

end
